theory Spec2Isabelle
  imports Main "HOL-Library.AList"
begin

section \<open>Python text and values\<close>

text \<open>
  A Python \<open>str\<close> is a sequence of Unicode code points, and slicing (\<open>s[:50]\<close>) counts
  code points. The diagnostic strings of \<open>/test\<close> contain code points beyond ASCII, so
  text is carried as a list of code points; \<open>ascii\<close> embeds an ASCII literal.
\<close>

type_synonym pystr = "nat list"

definition ascii :: "string \<Rightarrow> pystr" where
  "ascii s = map of_char s"

text \<open>U+2705, U+274C and U+26A0 U+FE0F: the three marks used by \<open>test_database\<close>.\<close>

definition check_mark :: pystr where
  "check_mark = [0x2705]"

definition cross_mark :: pystr where
  "cross_mark = [0x274C]"

definition warning_sign :: pystr where
  "warning_sign = [0x26A0, 0xFE0F]"

text \<open>\<open>str(n)\<close> for an integer: decimal digits, with a minus sign when negative.\<close>

function digits :: "nat \<Rightarrow> pystr" where
  "digits n = (if n < 10 then [48 + n] else digits (n div 10) @ [48 + n mod 10])"
  by pat_completeness auto
termination
  by (relation "measure id") auto

declare digits.simps [simp del]

definition str_int :: "int \<Rightarrow> pystr" where
  "str_int i = (if i < 0 then 45 # digits (nat (- i)) else digits (nat i))"

text \<open>
  A bson \<open>ObjectId\<close> is a 12-byte value; \<open>str\<close> renders it as 24 lower-case
  hexadecimal digits.
\<close>

datatype ObjectId = ObjectId nat

definition hexdigit :: "nat \<Rightarrow> nat" where
  "hexdigit d = (if d < 10 then 48 + d else 87 + d)"

fun hex :: "nat \<Rightarrow> nat \<Rightarrow> pystr" where
  "hex 0 n = []"
| "hex (Suc k) n = hex k (n div 16) @ [hexdigit (n mod 16)]"

fun str_ObjectId :: "ObjectId \<Rightarrow> pystr" where
  "str_ObjectId (ObjectId n) = hex 24 n"

text \<open>
  The values a stored document holds. A float is carried by its \<open>repr\<close> (which
  determines it, and is what \<open>str\<close> returns); no arithmetic on floats is modelled.
\<close>

datatype pyval =
    VNone
  | VBool bool
  | VInt int
  | VFloat pystr
  | VStr pystr
  | VObjectId ObjectId

fun py_str :: "pyval \<Rightarrow> pystr" where
  "py_str VNone = ascii ''None''"
| "py_str (VBool b) = (if b then ascii ''True'' else ascii ''False'')"
| "py_str (VInt i) = str_int i"
| "py_str (VFloat r) = r"
| "py_str (VStr s) = s"
| "py_str (VObjectId oid) = str_ObjectId oid"

text \<open>
  A \<open>dict\<close> with string keys, in insertion order. \<open>k in d\<close> is \<open>map_of d k \<noteq> None\<close>,
  \<open>d.pop(k)\<close> leaves \<open>AList.delete k d\<close>, and \<open>d[k] = v\<close> is \<open>AList.update k v d\<close>:
  an existing key keeps its place, a new one goes last.
\<close>

type_synonym doc = "(pystr \<times> pyval) list"

section \<open>Errors and responses\<close>

text \<open>An exception carries the text that \<open>str(e)\<close> returns.\<close>

datatype exception = ValidationError pystr | StorageUnavailable pystr | StorageError pystr

fun str_exc :: "exception \<Rightarrow> pystr" where
  "str_exc (ValidationError t) = t"
| "str_exc (StorageUnavailable t) = t"
| "str_exc (StorageError t) = t"

text \<open>
  A handler either returns a body (HTTP 200), raises \<open>HTTPException(status_code, detail)\<close>,
  or lets an exception escape (a generic server error).
\<close>

datatype failure = HTTPException nat pystr | ServerError exception

type_synonym 'a response = "failure + 'a"

section \<open>Schemas\<close>

text \<open>
  Modelled from the spec: \<open>schemas.Order\<close> is not among the sources. An order is an
  ordered sequence of line items; each item references a product identifier and carries
  an integer quantity, which the schema itself does not constrain to be positive.
\<close>

record OrderItem =
  product_id :: pystr
  quantity :: int

record Order =
  items :: "OrderItem list"

text \<open>
  Modelled from the spec: \<open>schemas.Product\<close> is not among the sources. A product has
  title, description, price (a non-negative number), category, in_stock and image;
  validation checks presence and type of each field and yields the normalized record,
  or signals a validation error naming the field.
\<close>

record Product =
  title :: pystr
  description :: pystr
  price :: pystr
  category :: pystr
  in_stock :: bool
  image :: pystr

definition get_str :: "doc \<Rightarrow> pystr \<Rightarrow> exception + pystr" where
  "get_str p k = (case map_of p k of Some (VStr s) \<Rightarrow> Inr s | _ \<Rightarrow> Inl (ValidationError k))"

definition get_bool :: "doc \<Rightarrow> pystr \<Rightarrow> exception + bool" where
  "get_bool p k = (case map_of p k of Some (VBool b) \<Rightarrow> Inr b | _ \<Rightarrow> Inl (ValidationError k))"

text \<open>
  \<open>x >= 0\<close> read off a float's \<open>repr\<close>: false for \<open>nan\<close> and for anything with a
  minus sign except \<open>-0.0\<close>.
\<close>

definition float_ge0 :: "pystr \<Rightarrow> bool" where
  "float_ge0 r = (r = ascii ''-0.0'' \<or> (r \<noteq> ascii ''nan'' \<and> take 1 r \<noteq> ascii ''-''))"

definition get_price :: "doc \<Rightarrow> pystr \<Rightarrow> exception + pystr" where
  "get_price p k =
     (case map_of p k of
        Some (VFloat r) \<Rightarrow> if float_ge0 r then Inr r else Inl (ValidationError k)
      | _ \<Rightarrow> Inl (ValidationError k))"

definition Product_validate :: "doc \<Rightarrow> exception + Product" where
  "Product_validate p =
     (case get_str p (ascii ''title'') of Inl e \<Rightarrow> Inl e | Inr t \<Rightarrow>
      case get_str p (ascii ''description'') of Inl e \<Rightarrow> Inl e | Inr d \<Rightarrow>
      case get_price p (ascii ''price'') of Inl e \<Rightarrow> Inl e | Inr pr \<Rightarrow>
      case get_str p (ascii ''category'') of Inl e \<Rightarrow> Inl e | Inr c \<Rightarrow>
      case get_bool p (ascii ''in_stock'') of Inl e \<Rightarrow> Inl e | Inr s \<Rightarrow>
      case get_str p (ascii ''image'') of Inl e \<Rightarrow> Inl e | Inr i \<Rightarrow>
        Inr \<lparr>title = t, description = d, price = pr, category = c, in_stock = s, image = i\<rparr>)"

definition model_dump :: "Product \<Rightarrow> doc" where
  "model_dump p =
     [(ascii ''title'', VStr (title p)),
      (ascii ''description'', VStr (description p)),
      (ascii ''price'', VFloat (price p)),
      (ascii ''category'', VStr (category p)),
      (ascii ''in_stock'', VBool (in_stock p)),
      (ascii ''image'', VStr (image p))]"

section \<open>Storage\<close>

text \<open>
  The global handle \<open>db\<close> is \<open>None\<close> when no connection was configured, and otherwise
  a database. The model of a database holds the two collections the service uses, the
  counter from which fresh identifiers are drawn, what \<open>db.name\<close> and
  \<open>db.list_collection_names()\<close> yield, and \<open>fault\<close>: \<open>Some e\<close> when the connection is
  present but operations on it fail with \<open>e\<close>.
\<close>

datatype attr = NoAttr | Attr pystr | AttrRaises exception

record Database =
  db_name :: attr
  collection_names :: "pystr list"
  fault :: "exception option"
  product_coll :: "doc list"
  order_coll :: "(ObjectId \<times> Order) list"
  next_oid :: nat

text \<open>The driver's \<open>db["product"].count_documents({})\<close>.\<close>

definition count_documents :: "Database \<Rightarrow> exception + nat" where
  "count_documents s =
     (case fault s of Some e \<Rightarrow> Inl e | None \<Rightarrow> Inr (length (product_coll s)))"

text \<open>
  The driver's \<open>db["product"].insert_many(docs)\<close>: each document that has no \<open>_id\<close>
  gets a fresh \<open>ObjectId\<close>, and the documents are appended in order.
\<close>

definition with_id :: "ObjectId \<Rightarrow> doc \<Rightarrow> doc" where
  "with_id oid d =
     (if map_of d (ascii ''_id'') = None then (ascii ''_id'', VObjectId oid) # d else d)"

definition insert_many :: "Database \<Rightarrow> doc list \<Rightarrow> exception + Database" where
  "insert_many s docs =
     (case fault s of
        Some e \<Rightarrow> Inl e
      | None \<Rightarrow>
          Inr (s\<lparr>product_coll := product_coll s @
                   map2 (\<lambda>i d. with_id (ObjectId i) d)
                     [next_oid s ..< next_oid s + length docs] docs,
                 next_oid := next_oid s + length docs\<rparr>))"

text \<open>The driver's \<open>db.list_collection_names()\<close>.\<close>

definition list_collection_names :: "Database \<Rightarrow> exception + pystr list" where
  "list_collection_names s =
     (case fault s of Some e \<Rightarrow> Inl e | None \<Rightarrow> Inr (collection_names s))"

text \<open>
  Modelled from the spec: \<open>database.get_documents\<close> is not among the sources. It
  returns every record currently in the named collection, each tagged with its generated
  identifier; it fails as unavailable when no connection was established, and with the
  storage error when the operation fails. The model is its one call,
  \<open>get_documents("product")\<close>; the spec gives no text for the unavailable case, the
  model uses the handler's own.
\<close>

definition get_documents :: "Database option \<Rightarrow> exception + doc list" where
  "get_documents db =
     (case db of
        None \<Rightarrow> Inl (StorageUnavailable (ascii ''Database not available''))
      | Some s \<Rightarrow> (case fault s of Some e \<Rightarrow> Inl e | None \<Rightarrow> Inr (product_coll s)))"

text \<open>
  Modelled from the spec: \<open>database.create_document\<close> is not among the sources. It
  stores one record and returns a newly assigned unique identifier in string form; it
  fails as unavailable when no connection was established, and with the storage error
  when the operation fails. The model is its one call,
  \<open>create_document("order", order)\<close>.
\<close>

definition create_document :: "Database option \<Rightarrow> Order \<Rightarrow> exception + (pystr \<times> Database)" where
  "create_document db order =
     (case db of
        None \<Rightarrow> Inl (StorageUnavailable (ascii ''Database not available''))
      | Some s \<Rightarrow>
          (case fault s of
             Some e \<Rightarrow> Inl e
           | None \<Rightarrow>
               Inr (str_ObjectId (ObjectId (next_oid s)),
                    s\<lparr>order_coll := order_coll s @ [(ObjectId (next_oid s), order)],
                      next_oid := next_oid s + 1\<rparr>)))"

section \<open>The service\<close>

text \<open>\<open>read_root\<close> and \<open>health\<close>.\<close>

definition read_root :: "doc response" where
  "read_root = Inr [(ascii ''message'', VStr (ascii ''E-Commerce Backend is running''))]"

definition health :: "doc response" where
  "health = Inr [(ascii ''status'', VStr (ascii ''ok''))]"

text \<open>\<open>_serialize\<close> (an Isabelle name cannot start with an underscore).\<close>

definition serialize :: "doc \<Rightarrow> doc" where
  "serialize doc =
     (if doc = [] then doc
      else case map_of doc (ascii ''_id'') of
             None \<Rightarrow> doc
           | Some v \<Rightarrow> AList.update (ascii ''id'') (VStr (py_str v)) (AList.delete (ascii ''_id'') doc))"

definition sample_products :: "doc list" where
  "sample_products =
     [[(ascii ''title'', VStr (ascii ''Classic Tee'')),
       (ascii ''description'', VStr (ascii ''Soft cotton tee in a relaxed fit.'')),
       (ascii ''price'', VFloat (ascii ''19.99'')),
       (ascii ''category'', VStr (ascii ''Apparel'')),
       (ascii ''in_stock'', VBool True),
       (ascii ''image'', VStr (ascii
          ''https://images.unsplash.com/photo-1512436991641-6745cdb1723f?w=800&q=80&auto=format&fit=crop''))],
      [(ascii ''title'', VStr (ascii ''Canvas Sneakers'')),
       (ascii ''description'', VStr (ascii ''Everyday low-top sneakers with cushioned soles.'')),
       (ascii ''price'', VFloat (ascii ''49.0'')),
       (ascii ''category'', VStr (ascii ''Shoes'')),
       (ascii ''in_stock'', VBool True),
       (ascii ''image'', VStr (ascii
          ''https://images.unsplash.com/photo-1528701800489-20beeb13d1d1?w=800&q=80&auto=format&fit=crop''))],
      [(ascii ''title'', VStr (ascii ''Leather Backpack'')),
       (ascii ''description'', VStr (ascii ''Durable backpack with laptop sleeve.'')),
       (ascii ''price'', VFloat (ascii ''89.5'')),
       (ascii ''category'', VStr (ascii ''Bags'')),
       (ascii ''in_stock'', VBool True),
       (ascii ''image'', VStr (ascii
          ''https://images.unsplash.com/photo-1521133573892-e44906baee46?w=800&q=80&auto=format&fit=crop''))],
      [(ascii ''title'', VStr (ascii ''Aviator Sunglasses'')),
       (ascii ''description'', VStr (ascii ''UV400 protection with classic metal frame.'')),
       (ascii ''price'', VFloat (ascii ''29.95'')),
       (ascii ''category'', VStr (ascii ''Accessories'')),
       (ascii ''in_stock'', VBool True),
       (ascii ''image'', VStr (ascii
          ''https://images.unsplash.com/photo-1511499767150-a48a237f0083?w=800&q=80&auto=format&fit=crop''))]]"

text \<open>The comprehension \<open>[Product(**p).model_dump() for p in sample_products]\<close>.\<close>

fun validate_all :: "doc list \<Rightarrow> exception + doc list" where
  "validate_all [] = Inr []"
| "validate_all (p # ps) =
     (case Product_validate p of
        Inl e \<Rightarrow> Inl e
      | Inr v \<Rightarrow> (case validate_all ps of Inl e \<Rightarrow> Inl e | Inr vs \<Rightarrow> Inr (model_dump v # vs)))"

text \<open>\<open>_ensure_seed_products\<close>: the handle after the call, or the exception raised.\<close>

definition ensure_seed_products :: "Database option \<Rightarrow> exception + Database option" where
  "ensure_seed_products db =
     (case db of
        None \<Rightarrow> Inr None
      | Some s \<Rightarrow>
          (case count_documents s of
             Inl e \<Rightarrow> Inl e
           | Inr count \<Rightarrow>
               if count = 0 then
                 (case validate_all sample_products of
                    Inl e \<Rightarrow> Inl e
                  | Inr validated \<Rightarrow>
                      (case insert_many s validated of
                         Inl e \<Rightarrow> Inl e
                       | Inr s' \<Rightarrow> Inr (Some s')))
               else Inr (Some s)))"

definition fallback_product :: doc where
  "fallback_product =
     [(ascii ''id'', VStr (ascii ''demo-1'')),
      (ascii ''title'', VStr (ascii ''Classic Tee'')),
      (ascii ''description'', VStr (ascii ''Soft cotton tee in a relaxed fit.'')),
      (ascii ''price'', VFloat (ascii ''19.99'')),
      (ascii ''category'', VStr (ascii ''Apparel'')),
      (ascii ''in_stock'', VBool True),
      (ascii ''image'', VStr (ascii
         ''https://images.unsplash.com/photo-1512436991641-6745cdb1723f?w=800&q=80&auto=format&fit=crop''))]"

text \<open>
  \<open>list_products\<close>: the response and the handle after the request. An exception that
  escapes leaves the store as it was when it was raised.
\<close>

definition list_products :: "Database option \<Rightarrow> doc list response \<times> Database option" where
  "list_products db =
     (case db of
        None \<Rightarrow> (Inr [fallback_product], None)
      | Some s \<Rightarrow>
          (case ensure_seed_products db of
             Inl e \<Rightarrow> (Inl (ServerError e), db)
           | Inr db1 \<Rightarrow>
               (case get_documents db1 of
                  Inl e \<Rightarrow> (Inl (ServerError e), db1)
                | Inr docs \<Rightarrow> (Inr (map serialize docs), db1))))"

text \<open>\<open>create_order\<close>: the response and the handle after the request.\<close>

definition create_order :: "Database option \<Rightarrow> Order \<Rightarrow> doc response \<times> Database option" where
  "create_order db order =
     (case db of
        None \<Rightarrow> (Inl (HTTPException 503 (ascii ''Database not available'')), None)
      | Some s \<Rightarrow>
          if items order = [] \<or> list_ex (\<lambda>i. quantity i \<le> 0) (items order) then
            (Inl (HTTPException 400 (ascii ''Invalid order items'')), db)
          else
            (case create_document db order of
               Inl e \<Rightarrow> (Inl (ServerError e), db)
             | Inr (order_id, s') \<Rightarrow>
                 (Inr [(ascii ''order_id'', VStr order_id),
                       (ascii ''status'', VStr (ascii ''received''))], Some s')))"

subsection \<open>The diagnostics endpoint\<close>

type_synonym environ = "pystr \<rightharpoonup> pystr"

text \<open>Truth value of \<open>os.getenv(k)\<close>: the variable is set and its value is not empty.\<close>

definition getenv_truthy :: "environ \<Rightarrow> pystr \<Rightarrow> bool" where
  "getenv_truthy env k = (case env k of None \<Rightarrow> False | Some v \<Rightarrow> v \<noteq> [])"

record test_response =
  backend :: pystr
  database :: pystr
  database_url :: "pystr option"
  database_name :: "pystr option"
  connection_status :: pystr
  collections :: "pystr list"

definition initial_response :: test_response where
  "initial_response =
     \<lparr>backend = check_mark @ ascii '' Running'',
      database = cross_mark @ ascii '' Not Available'',
      database_url = None,
      database_name = None,
      connection_status = ascii ''Not Connected'',
      collections = []\<rparr>"

text \<open>
  The body of the outer \<open>try\<close>: the response as assigned so far, and the exception that
  escapes the block, if any. \<open>hasattr(db, 'name')\<close> is false when the attribute is
  missing and lets any other exception through.
\<close>

definition test_try :: "Database option \<Rightarrow> test_response \<Rightarrow> test_response \<times> exception option" where
  "test_try db response =
     (case db of
        Some h \<Rightarrow>
          (let r1 = response\<lparr>database := check_mark @ ascii '' Available'',
                             database_url := Some (check_mark @ ascii '' Configured'')\<rparr>
           in case db_name h of
                AttrRaises e \<Rightarrow> (r1, Some e)
              | a \<Rightarrow>
                  (let r2 = r1\<lparr>database_name :=
                                  Some (case a of Attr n \<Rightarrow> n | _ \<Rightarrow> check_mark @ ascii '' Connected''),
                                connection_status := ascii ''Connected''\<rparr>
                   in case list_collection_names h of
                        Inr cs \<Rightarrow>
                          (r2\<lparr>collections := take 10 cs,
                              database := check_mark @ ascii '' Connected & Working''\<rparr>, None)
                      | Inl e \<Rightarrow>
                          (r2\<lparr>database := warning_sign @ ascii ''  Connected but Error: ''
                                           @ take 50 (str_exc e)\<rparr>, None)))
      | None \<Rightarrow>
          (response\<lparr>database := warning_sign @ ascii ''  Available but not initialized''\<rparr>, None))"

definition test_database :: "environ \<Rightarrow> Database option \<Rightarrow> test_response response" where
  "test_database env db =
     (let r = (case test_try db initial_response of
                 (r, None) \<Rightarrow> r
               | (r, Some e) \<Rightarrow> r\<lparr>database := cross_mark @ ascii '' Error: '' @ take 50 (str_exc e)\<rparr>)
      in Inr (r\<lparr>database_url :=
                  Some (if getenv_truthy env (ascii ''DATABASE_URL'')
                        then check_mark @ ascii '' Set'' else cross_mark @ ascii '' Not Set''),
                database_name :=
                  Some (if getenv_truthy env (ascii ''DATABASE_NAME'')
                        then check_mark @ ascii '' Set'' else cross_mark @ ascii '' Not Set'')\<rparr>))"

subsection \<open>Sequences of requests\<close>

datatype request = ReadRoot | Health | ListProducts | CreateOrder Order | TestDatabase

fun handle :: "Database option \<Rightarrow> request \<Rightarrow> Database option" where
  "handle db ReadRoot = db"
| "handle db Health = db"
| "handle db ListProducts = snd (list_products db)"
| "handle db (CreateOrder order) = snd (create_order db order)"
| "handle db TestDatabase = db"

definition run :: "Database option \<Rightarrow> request list \<Rightarrow> Database option" where
  "run db reqs = foldl handle db reqs"

text \<open>The orders a store holds, and the one business rule on them.\<close>

definition persisted_orders :: "Database option \<Rightarrow> Order list" where
  "persisted_orders db = (case db of None \<Rightarrow> [] | Some s \<Rightarrow> map snd (order_coll s))"

definition order_ok :: "Order \<Rightarrow> bool" where
  "order_ok order = (items order \<noteq> [] \<and> list_all (\<lambda>i. 0 < quantity i) (items order))"

text \<open>A fresh, working store, for concrete evaluations.\<close>

definition fresh_db :: Database where
  "fresh_db =
     \<lparr>db_name = Attr (ascii ''shop''),
      collection_names = [],
      fault = None,
      product_coll = [],
      order_coll = [],
      next_oid = 0\<rparr>"

text \<open>The same store with its connection refused: every operation on it raises.\<close>

definition broken_db :: Database where
  "broken_db = fresh_db\<lparr>fault :=
     Some (StorageError (ascii ''localhost:27017: [Errno 111] Connection refused, Timeout: 30s''))\<rparr>"

section \<open>Basic facts\<close>

lemma ascii_eq_iff [simp]: "ascii a = ascii b \<longleftrightarrow> a = b"
  unfolding ascii_def by (simp add: inj_map_eq_map inj_on_def)

lemma ascii_Nil [simp]: "ascii [] = []"
  by (simp add: ascii_def)

lemma length_hex [simp]: "length (hex k n) = k"
  by (induction k arbitrary: n) auto


lemma str_ObjectId_length: "length (str_ObjectId oid) = 24"
  by (cases oid) (simp del: hex.simps)

lemma str_ObjectId_nonempty: "str_ObjectId oid \<noteq> []"
  using str_ObjectId_length [of oid] by auto

lemma str_ObjectId_0: "str_ObjectId (ObjectId 0) = ascii ''000000000000000000000000''"
  by code_simp

lemma str_ObjectId_255: "str_ObjectId (ObjectId 255) = ascii ''0000000000000000000000ff''"
  by code_simp

lemma fresh_db_simps [simp]:
  "fault fresh_db = None" "product_coll fresh_db = []" "order_coll fresh_db = []"
  "next_oid fresh_db = 0"
  by (simp_all add: fresh_db_def)

section \<open>Creating orders\<close>

text \<open>
  C1. With storage available, an order whose item list is empty, or which has an item
  with quantity at most 0, is rejected with status 400, and the store after the request
  is the store before it: no order record is persisted. The storage is not touched on
  this path, so the rejection does not depend on the store being operational.
\<close>

theorem create_order_rejects_invalid:
  assumes "items order = [] \<or> (\<exists>i \<in> set (items order). quantity i \<le> 0)"
  shows "create_order (Some s) order =
           (Inl (HTTPException 400 (ascii ''Invalid order items'')), Some s)"
  using assms by (auto simp: create_order_def list_ex_iff)

theorem create_order_rejects_invalid_witness:
  "quantity \<lparr>product_id = ascii ''x'', quantity = 0\<rparr> \<le> 0 \<and>
   create_order (Some fresh_db) \<lparr>items = [\<lparr>product_id = ascii ''x'', quantity = 0\<rparr>]\<rparr> =
     (Inl (HTTPException 400 (ascii ''Invalid order items'')), Some fresh_db) \<and>
   create_order (Some fresh_db) \<lparr>items = []\<rparr> =
     (Inl (HTTPException 400 (ascii ''Invalid order items'')), Some fresh_db)"
  using create_order_rejects_invalid
          [of "\<lparr>items = [\<lparr>product_id = ascii ''x'', quantity = 0\<rparr>]\<rparr>" fresh_db]
        create_order_rejects_invalid [of "\<lparr>items = []\<rparr>" fresh_db]
  by simp

text \<open>
  C2. With storage available and operational, an order with a non-empty item list whose
  quantities are all strictly positive is accepted: the handler returns the body
  \<open>{order_id, status}\<close> with \<open>status\<close> equal to \<open>received\<close> and \<open>order_id\<close> a
  non-empty string.
\<close>

theorem create_order_accepts_valid:
  assumes "fault s = None" and "items order \<noteq> []"
    and "\<forall>i \<in> set (items order). 0 < quantity i"
  shows "\<exists>order_id s'.
           create_order (Some s) order =
             (Inr [(ascii ''order_id'', VStr order_id),
                   (ascii ''status'', VStr (ascii ''received''))], Some s')
           \<and> order_id \<noteq> []"
proof -
  from assms(3) have "\<not> list_ex (\<lambda>i. quantity i \<le> 0) (items order)"
    by (auto simp: list_ex_iff)
  with assms(1,2) have "create_order (Some s) order =
      (Inr [(ascii ''order_id'', VStr (str_ObjectId (ObjectId (next_oid s)))),
            (ascii ''status'', VStr (ascii ''received''))],
       Some (s\<lparr>order_coll := order_coll s @ [(ObjectId (next_oid s), order)],
               next_oid := next_oid s + 1\<rparr>))"
    by (simp add: create_order_def create_document_def del: str_ObjectId.simps)
  then show ?thesis
    using str_ObjectId_nonempty by blast
qed

theorem create_order_accepts_valid_witness:
  "fault fresh_db = None \<and>
   (\<exists>order_id s'.
      create_order (Some fresh_db) \<lparr>items = [\<lparr>product_id = ascii ''x'', quantity = 2\<rparr>]\<rparr> =
        (Inr [(ascii ''order_id'', VStr order_id),
              (ascii ''status'', VStr (ascii ''received''))], Some s')
      \<and> order_id \<noteq> [])"
  using create_order_accepts_valid
          [of fresh_db "\<lparr>items = [\<lparr>product_id = ascii ''x'', quantity = 2\<rparr>]\<rparr>"]
  by simp

text \<open>
  C6. With storage unavailable (\<open>db\<close> is \<open>None\<close>), every order payload gets status 503,
  whatever its items: the availability check comes before the validation of the items.
\<close>

theorem create_order_unavailable:
  "create_order None order =
     (Inl (HTTPException 503 (ascii ''Database not available'')), None)"
  by (simp add: create_order_def)

theorem create_order_unavailable_witness:
  "create_order None \<lparr>items = []\<rparr> =
     (Inl (HTTPException 503 (ascii ''Database not available'')), None) \<and>
   create_order None \<lparr>items = [\<lparr>product_id = ascii ''x'', quantity = - 1\<rparr>]\<rparr> =
     (Inl (HTTPException 503 (ascii ''Database not available'')), None)"
  using create_order_unavailable [of "\<lparr>items = []\<rparr>"]
        create_order_unavailable [of "\<lparr>items = [\<lparr>product_id = ascii ''x'', quantity = - 1\<rparr>]\<rparr>"]
  by simp

section \<open>Serialization\<close>

text \<open>
  C9. A document that is empty, or that has no \<open>_id\<close> key, is returned by
  \<open>_serialize\<close> as it is: no \<open>id\<close> key is added and no field changes.
\<close>

theorem serialize_without_id:
  assumes "doc = [] \<or> ascii ''_id'' \<notin> fst ` set doc"
  shows "serialize doc = doc"
  using assms
  by (auto simp: serialize_def map_of_eq_None_iff [symmetric]
           simp del: map_of_eq_None_iff split: option.splits)

theorem serialize_without_id_witness:
  "serialize [] = [] \<and>
   serialize [(ascii ''title'', VStr (ascii ''Classic Tee'')), (ascii ''in_stock'', VBool True)] =
     [(ascii ''title'', VStr (ascii ''Classic Tee'')), (ascii ''in_stock'', VBool True)]"
  using serialize_without_id [of "[]"]
        serialize_without_id
          [of "[(ascii ''title'', VStr (ascii ''Classic Tee'')), (ascii ''in_stock'', VBool True)]"]
  by simp

text \<open>
  C4, as the code has it. For a document with an \<open>_id\<close> field, \<open>_serialize\<close> removes
  \<open>_id\<close>, sets \<open>id\<close> to the string form of its value, and leaves every field other
  than \<open>_id\<close> and \<open>id\<close> as it was. A field already named \<open>id\<close> does not pass
  through: it is overwritten by the stringified identifier.
\<close>

theorem serialize_with_id:
  assumes "map_of doc (ascii ''_id'') = Some v"
  shows "map_of (serialize doc) (ascii ''_id'') = None \<and>
         map_of (serialize doc) (ascii ''id'') = Some (VStr (py_str v)) \<and>
         (\<forall>k. k \<noteq> ascii ''_id'' \<and> k \<noteq> ascii ''id'' \<longrightarrow>
              map_of (serialize doc) k = map_of doc k)"
  using assms by (auto simp: serialize_def update_conv' delete_conv')

theorem serialize_with_id_witness:
  "map_of (serialize [(ascii ''_id'', VObjectId (ObjectId 255)),
                      (ascii ''title'', VStr (ascii ''Classic Tee''))]) (ascii ''_id'') = None \<and>
   map_of (serialize [(ascii ''_id'', VObjectId (ObjectId 255)),
                      (ascii ''title'', VStr (ascii ''Classic Tee''))]) (ascii ''id'') =
     Some (VStr (ascii ''0000000000000000000000ff'')) \<and>
   map_of (serialize [(ascii ''_id'', VObjectId (ObjectId 255)),
                      (ascii ''title'', VStr (ascii ''Classic Tee''))]) (ascii ''title'') =
     Some (VStr (ascii ''Classic Tee''))"
  using serialize_with_id
          [of "[(ascii ''_id'', VObjectId (ObjectId 255)),
                (ascii ''title'', VStr (ascii ''Classic Tee''))]" "VObjectId (ObjectId 255)"]
  by (simp add: str_ObjectId_255 del: str_ObjectId.simps)

text \<open>
  The claim as stated (every other field passes through unchanged) fails on a stored
  document that already has a field named \<open>id\<close>: the field is there before, with the
  value \<open>sku-1\<close>, and holds the stringified \<open>_id\<close> after.
\<close>

theorem serialize_overwrites_existing_id:
  "map_of [(ascii ''_id'', VObjectId (ObjectId 255)),
           (ascii ''id'', VStr (ascii ''sku-1'')),
           (ascii ''title'', VStr (ascii ''Classic Tee''))] (ascii ''id'') =
     Some (VStr (ascii ''sku-1'')) \<and>
   serialize [(ascii ''_id'', VObjectId (ObjectId 255)),
              (ascii ''id'', VStr (ascii ''sku-1'')),
              (ascii ''title'', VStr (ascii ''Classic Tee''))] =
     [(ascii ''id'', VStr (ascii ''0000000000000000000000ff'')),
      (ascii ''title'', VStr (ascii ''Classic Tee''))]"
  by code_simp


section \<open>The diagnostics endpoint\<close>

lemma test_try_cases:
  "test_try db r0 =
     (case db of
        None \<Rightarrow> (r0\<lparr>database := warning_sign @ ascii ''  Available but not initialized''\<rparr>, None)
      | Some h \<Rightarrow>
          (case db_name h of
             AttrRaises e \<Rightarrow>
               (r0\<lparr>database := check_mark @ ascii '' Available'',
                   database_url := Some (check_mark @ ascii '' Configured'')\<rparr>, Some e)
           | _ \<Rightarrow> (fst (test_try db r0), None)))"
  by (simp add: test_try_def Let_def split: option.splits attr.splits sum.splits)

lemma test_try_database:
  "database (fst (test_try db r0)) =
     (case db of
        None \<Rightarrow> warning_sign @ ascii ''  Available but not initialized''
      | Some h \<Rightarrow>
          (case db_name h of
             AttrRaises e \<Rightarrow> check_mark @ ascii '' Available''
           | _ \<Rightarrow>
               (case fault h of
                  Some e \<Rightarrow> warning_sign @ ascii ''  Connected but Error: '' @ take 50 (str_exc e)
                | None \<Rightarrow> check_mark @ ascii '' Connected & Working'')))"
  by (simp add: test_try_def list_collection_names_def Let_def
           split: option.splits attr.splits sum.splits)

text \<open>
  C8. \<open>test_database\<close> returns a body (HTTP 200) for every environment and every state
  of the handle, also when \<open>db.name\<close> raises or the storage operation fails. The
  \<open>database\<close> field is one of four strings: not initialized when there is no handle;
  the outer handler's \<open>Error:\<close> followed by the first 50 characters of the exception
  text when reading \<open>db.name\<close> raises; \<open>Connected but Error:\<close> followed by the first
  50 characters of the exception text when listing the collections raises; and
  \<open>Connected & Working\<close> otherwise.
\<close>

theorem test_database_always_ok:
  "\<exists>r. test_database env db = Inr r \<and>
       database r =
         (case db of
            None \<Rightarrow> warning_sign @ ascii ''  Available but not initialized''
          | Some h \<Rightarrow>
              (case db_name h of
                 AttrRaises e \<Rightarrow> cross_mark @ ascii '' Error: '' @ take 50 (str_exc e)
               | _ \<Rightarrow>
                   (case fault h of
                      Some e \<Rightarrow>
                        warning_sign @ ascii ''  Connected but Error: '' @ take 50 (str_exc e)
                    | None \<Rightarrow> check_mark @ ascii '' Connected & Working'')))"
proof -
  obtain r x where tt: "test_try db initial_response = (r, x)"
    by (cases "test_try db initial_response")
  have db_r: "database r = database (fst (test_try db initial_response))"
    using tt by simp
  show ?thesis
  proof (cases x)
    case None
    with tt have no_raise: "\<forall>h e. db = Some h \<longrightarrow> db_name h \<noteq> AttrRaises e"
      by (subst (asm) test_try_cases) (auto split: option.splits attr.splits)
    from None tt have "database (projr (test_database env db)) = database r"
      by (simp add: test_database_def)
    moreover have "\<exists>r'. test_database env db = Inr r'"
      by (simp add: test_database_def Let_def)
    ultimately show ?thesis
      using no_raise db_r
      by (auto simp: test_try_database split: option.splits attr.splits)
  next
    case (Some e)
    with tt obtain h where h: "db = Some h" "db_name h = AttrRaises e"
      by (subst (asm) test_try_cases) (auto split: option.splits attr.splits)
    from Some tt have "test_database env db =
        Inr (r\<lparr>database := cross_mark @ ascii '' Error: '' @ take 50 (str_exc e),
               database_url :=
                  Some (if getenv_truthy env (ascii ''DATABASE_URL'')
                        then check_mark @ ascii '' Set'' else cross_mark @ ascii '' Not Set''),
               database_name :=
                  Some (if getenv_truthy env (ascii ''DATABASE_NAME'')
                        then check_mark @ ascii '' Set'' else cross_mark @ ascii '' Not Set'')\<rparr>)"
      by (simp add: test_database_def)
    with h show ?thesis by simp
  qed
qed

theorem test_database_always_ok_witness:
  "(\<exists>r. test_database Map.empty (Some broken_db) = Inr r \<and>
        database r = warning_sign @ ascii ''  Connected but Error: ''
                       @ ascii ''localhost:27017: [Errno 111] Connection refused, T'') \<and>
   (\<exists>r. test_database Map.empty
           (Some (fresh_db\<lparr>db_name := AttrRaises (StorageError (ascii ''closed''))\<rparr>)) = Inr r \<and>
        database r = cross_mark @ ascii '' Error: closed'') \<and>
   (\<exists>r. test_database Map.empty None = Inr r \<and>
        database r = warning_sign @ ascii ''  Available but not initialized'')"
  using test_database_always_ok [of Map.empty "Some broken_db"]
        test_database_always_ok
          [of Map.empty "Some (fresh_db\<lparr>db_name := AttrRaises (StorageError (ascii ''closed''))\<rparr>)"]
        test_database_always_ok [of Map.empty None]
  by (simp add: broken_db_def fresh_db_def ascii_def)

text \<open>
  C10, as the code has it. In every response of \<open>test_database\<close>, whatever the state of
  the handle, \<open>database_url\<close> and \<open>database_name\<close> are \<open>Set\<close> when the environment
  variable \<open>DATABASE_URL\<close> (respectively \<open>DATABASE_NAME\<close>) is set to a non-empty value
  and \<open>Not Set\<close> when it is unset or empty: the values assigned from the connection
  earlier in the handler are overwritten.
\<close>

theorem test_database_env_fields:
  "\<exists>r. test_database env db = Inr r \<and>
       database_url r =
         Some (if env (ascii ''DATABASE_URL'') = None \<or> env (ascii ''DATABASE_URL'') = Some []
               then cross_mark @ ascii '' Not Set'' else check_mark @ ascii '' Set'') \<and>
       database_name r =
         Some (if env (ascii ''DATABASE_NAME'') = None \<or> env (ascii ''DATABASE_NAME'') = Some []
               then cross_mark @ ascii '' Not Set'' else check_mark @ ascii '' Set'')"
  by (auto simp: test_database_def getenv_truthy_def Let_def split: option.splits prod.splits)

theorem test_database_env_fields_witness:
  "\<exists>r. test_database [ascii ''DATABASE_URL'' \<mapsto> ascii ''mongodb://localhost:27017'']
          (Some fresh_db) = Inr r \<and>
       database_url r = Some (check_mark @ ascii '' Set'') \<and>
       database_name r = Some (cross_mark @ ascii '' Not Set'')"
  using test_database_env_fields
          [of "[ascii ''DATABASE_URL'' \<mapsto> ascii ''mongodb://localhost:27017'']" "Some fresh_db"]
  by (simp add: ascii_def)

text \<open>
  The claim as stated (\<open>Set\<close> if the variable is set) fails when the variable is set to
  the empty string: \<open>os.getenv\<close> returns the empty string, which is false in the
  conditional, and the field reads \<open>Not Set\<close>.
\<close>

theorem test_database_empty_url_not_set:
  "[ascii ''DATABASE_URL'' \<mapsto> []] (ascii ''DATABASE_URL'') = Some [] \<and>
   map_sum id database_url (test_database [ascii ''DATABASE_URL'' \<mapsto> []] None) =
     Inr (Some (cross_mark @ ascii '' Not Set''))"
  by (simp add: test_database_def getenv_truthy_def Let_def split: prod.splits)

section \<open>Listing products\<close>

text \<open>
  C7. With storage unavailable, \<open>list_products\<close> returns a body (HTTP 200) holding
  exactly one record, the hardcoded fallback product; there is no store to query.
\<close>

theorem list_products_fallback:
  "list_products None =
     (Inr [[(ascii ''id'', VStr (ascii ''demo-1'')),
            (ascii ''title'', VStr (ascii ''Classic Tee'')),
            (ascii ''description'', VStr (ascii ''Soft cotton tee in a relaxed fit.'')),
            (ascii ''price'', VFloat (ascii ''19.99'')),
            (ascii ''category'', VStr (ascii ''Apparel'')),
            (ascii ''in_stock'', VBool True),
            (ascii ''image'', VStr (ascii
               ''https://images.unsplash.com/photo-1512436991641-6745cdb1723f?w=800&q=80&auto=format&fit=crop''))]],
      None)"
  by (simp add: list_products_def fallback_product_def)

theorem list_products_fallback_witness:
  "map (\<lambda>r. map_of r (ascii ''id'')) (projr (fst (list_products None))) =
     [Some (VStr (ascii ''demo-1''))]"
  using list_products_fallback by simp


lemma validate_all_samples: "validate_all sample_products = Inr sample_products"
  by code_simp

lemma samples_have_no_id: "\<forall>p \<in> set sample_products. map_of p (ascii ''_id'') = None"
  by (simp add: sample_products_def)

lemma length_sample_products: "length sample_products = 4"
  by (simp add: sample_products_def)

lemma map2_with_id:
  "\<forall>p \<in> set ps. map_of p (ascii ''_id'') = None \<Longrightarrow>
   map2 (\<lambda>i d. with_id (ObjectId i) d) ns ps =
   map2 (\<lambda>i d. (ascii ''_id'', VObjectId (ObjectId i)) # d) ns ps"
  by (induction ns ps rule: list_induct2') (simp_all add: with_id_def)

lemma ensure_seed_products_empty:
  assumes "fault s = None" and "product_coll s = []"
  shows "ensure_seed_products (Some s) =
           Inr (Some (s\<lparr>product_coll :=
                          map2 (\<lambda>i d. (ascii ''_id'', VObjectId (ObjectId i)) # d)
                            [next_oid s ..< next_oid s + 4] sample_products,
                        next_oid := next_oid s + 4\<rparr>))"
  using assms
  by (simp add: ensure_seed_products_def count_documents_def validate_all_samples
        insert_many_def length_sample_products map2_with_id [OF samples_have_no_id])

lemma ensure_seed_products_nonempty:
  assumes "fault s = None" and "product_coll s \<noteq> []"
  shows "ensure_seed_products (Some s) = Inr (Some s)"
  using assms by (simp add: ensure_seed_products_def count_documents_def)

lemma list_products_nonempty:
  assumes "fault s = None" and "product_coll s \<noteq> []"
  shows "list_products (Some s) = (Inr (map serialize (product_coll s)), Some s)"
  using assms
  by (simp add: list_products_def ensure_seed_products_nonempty get_documents_def)

lemma list_products_empty:
  assumes "fault s = None" and "product_coll s = []"
  shows "list_products (Some s) =
           (Inr (map serialize
                   (map2 (\<lambda>i d. (ascii ''_id'', VObjectId (ObjectId i)) # d)
                      [next_oid s ..< next_oid s + 4] sample_products)),
            Some (s\<lparr>product_coll :=
                          map2 (\<lambda>i d. (ascii ''_id'', VObjectId (ObjectId i)) # d)
                            [next_oid s ..< next_oid s + 4] sample_products,
                        next_oid := next_oid s + 4\<rparr>))"
  using assms
  by (simp add: list_products_def ensure_seed_products_empty get_documents_def)

lemma seeded_length:
  "length (map2 (\<lambda>i d. (ascii ''_id'', VObjectId (ObjectId i)) # d)
             [n ..< n + 4] sample_products) = 4"
  by (simp add: length_sample_products)

text \<open>
  C3. When \<open>list_products\<close> is called on an operational store whose product collection
  is empty, the store afterwards holds exactly the four fixed sample products, in order,
  each tagged with a fresh identifier, and these are the records fetched and serialized
  for the response. A second call returns the same response and leaves the store as it is:
  nothing further is inserted.
\<close>

theorem list_products_seeds_once:
  assumes "fault s = None" and "product_coll s = []"
  shows "\<exists>s1. list_products (Some s) = (Inr (map serialize (product_coll s1)), Some s1) \<and>
              product_coll s1 =
                map2 (\<lambda>i p. (ascii ''_id'', VObjectId (ObjectId i)) # p)
                  [next_oid s ..< next_oid s + 4] sample_products \<and>
              length (product_coll s1) = 4 \<and>
              list_products (Some s1) = (Inr (map serialize (product_coll s1)), Some s1)"
proof -
  let ?s1 = "s\<lparr>product_coll :=
                 map2 (\<lambda>i d. (ascii ''_id'', VObjectId (ObjectId i)) # d)
                   [next_oid s ..< next_oid s + 4] sample_products,
               next_oid := next_oid s + 4\<rparr>"
  have f1: "fault ?s1 = None"
    using assms(1) by simp
  have p1: "product_coll ?s1 =
      map2 (\<lambda>i p. (ascii ''_id'', VObjectId (ObjectId i)) # p)
        [next_oid s ..< next_oid s + 4] sample_products"
    by simp
  have len: "length (product_coll ?s1) = 4"
    by (simp add: length_sample_products)
  then have ne: "product_coll ?s1 \<noteq> []"
    by auto
  have first: "list_products (Some s) = (Inr (map serialize (product_coll ?s1)), Some ?s1)"
    using assms by (simp add: list_products_empty)
  have second: "list_products (Some ?s1) = (Inr (map serialize (product_coll ?s1)), Some ?s1)"
    using f1 ne by (rule list_products_nonempty)
  from first p1 len second show ?thesis
    by blast
qed

theorem list_products_seeds_once_witness:
  "fault fresh_db = None \<and> product_coll fresh_db = [] \<and>
   (\<exists>s1. list_products (Some fresh_db) = (Inr (map serialize (product_coll s1)), Some s1) \<and>
         map (\<lambda>p. map_of p (ascii ''_id'')) (product_coll s1) =
           [Some (VObjectId (ObjectId 0)), Some (VObjectId (ObjectId 1)),
            Some (VObjectId (ObjectId 2)), Some (VObjectId (ObjectId 3))] \<and>
         map (AList.delete (ascii ''_id'')) (product_coll s1) = sample_products \<and>
         list_products (Some s1) = (Inr (map serialize (product_coll s1)), Some s1))"
proof -
  have "[0 ..< 0 + 4] = [0, 1, 2, 3::nat]"
    by (simp add: upt_rec)
  then show ?thesis
    using list_products_seeds_once [of fresh_db]
    by (auto simp: sample_products_def)
qed

text \<open>Whatever the store, a second call repeats the first and changes nothing.\<close>

lemma list_products_idempotent:
  "list_products (snd (list_products db)) = list_products db"
proof (cases db)
  case None
  then show ?thesis by (simp add: list_products_def)
next
  case (Some s)
  show ?thesis
  proof (cases "fault s")
    case (Some e)
    with \<open>db = Some s\<close> show ?thesis
      by (simp add: list_products_def ensure_seed_products_def count_documents_def)
  next
    case None
    show ?thesis
    proof (cases "product_coll s = []")
      case True
      let ?docs = "map2 (\<lambda>i d. (ascii ''_id'', VObjectId (ObjectId i)) # d)
                     [next_oid s ..< next_oid s + 4] sample_products"
      let ?s1 = "s\<lparr>product_coll := ?docs, next_oid := next_oid s + 4\<rparr>"
      have "length ?docs = 4"
        by (rule seeded_length)
      then have "product_coll ?s1 \<noteq> []"
        by auto
      moreover have "fault ?s1 = None"
        using None by simp
      ultimately have "list_products (Some ?s1) = (Inr (map serialize (product_coll ?s1)), Some ?s1)"
        by (rule list_products_nonempty [rotated])
      moreover have "list_products (Some s) = (Inr (map serialize (product_coll ?s1)), Some ?s1)"
        using None True by (simp add: list_products_empty)
      ultimately show ?thesis
        using \<open>db = Some s\<close> by simp
    next
      case False
      with None \<open>db = Some s\<close> show ?thesis
        by (simp add: list_products_nonempty)
    qed
  qed
qed

section \<open>The invariant of persisted orders\<close>

lemma persisted_orders_list_products:
  "persisted_orders (snd (list_products db)) = persisted_orders db"
  by (auto simp: list_products_def persisted_orders_def ensure_seed_products_def
        count_documents_def insert_many_def get_documents_def
        split: option.splits sum.splits if_splits)

lemma persisted_orders_create_order:
  "persisted_orders (snd (create_order db order)) = persisted_orders db \<or>
   (order_ok order \<and>
    persisted_orders (snd (create_order db order)) = persisted_orders db @ [order])"
  by (auto simp: create_order_def persisted_orders_def create_document_def order_ok_def
        list_ex_iff list_all_iff not_le split: option.splits)

lemma handle_preserves_order_ok:
  assumes "list_all order_ok (persisted_orders db)"
  shows "list_all order_ok (persisted_orders (handle db req))"
proof (cases req)
  case (CreateOrder order)
  with assms persisted_orders_create_order [of db order] show ?thesis
    by auto
qed (use assms in \<open>simp_all add: persisted_orders_list_products\<close>)

lemma run_preserves_order_ok:
  "list_all order_ok (persisted_orders db) \<Longrightarrow> list_all order_ok (persisted_orders (run db reqs))"
  unfolding run_def
  by (induction reqs arbitrary: db) (simp_all add: handle_preserves_order_ok)

text \<open>
  C5. Starting from a store whose persisted orders satisfy the rule (an empty order
  collection in particular), after any sequence of requests to the service every
  persisted order has a non-empty item list and only strictly positive quantities:
  \<open>create_order\<close>, the only handler that writes to the order collection, inserts an
  order only after checking it.
\<close>

theorem persisted_orders_valid:
  assumes "\<forall>order \<in> set (persisted_orders db). order_ok order"
  shows "\<forall>order \<in> set (persisted_orders (run db reqs)).
           items order \<noteq> [] \<and> (\<forall>i \<in> set (items order). 0 < quantity i)"
  using run_preserves_order_ok [of db reqs] assms
  by (simp add: list_all_iff order_ok_def)

theorem persisted_orders_valid_witness:
  "persisted_orders (Some fresh_db) = [] \<and>
   persisted_orders
     (run (Some fresh_db)
        [CreateOrder \<lparr>items = [\<lparr>product_id = ascii ''x'', quantity = 0\<rparr>]\<rparr>,
         CreateOrder \<lparr>items = [\<lparr>product_id = ascii ''x'', quantity = 2\<rparr>]\<rparr>,
         TestDatabase,
         CreateOrder \<lparr>items = []\<rparr>]) =
     [\<lparr>items = [\<lparr>product_id = ascii ''x'', quantity = 2\<rparr>]\<rparr>] \<and>
   0 < quantity \<lparr>product_id = ascii ''x'', quantity = 2\<rparr>"
  using persisted_orders_valid
          [of "Some fresh_db"
              "[CreateOrder \<lparr>items = [\<lparr>product_id = ascii ''x'', quantity = 0\<rparr>]\<rparr>,
                CreateOrder \<lparr>items = [\<lparr>product_id = ascii ''x'', quantity = 2\<rparr>]\<rparr>,
                TestDatabase,
                CreateOrder \<lparr>items = []\<rparr>]"]
  by (simp add: run_def persisted_orders_def create_order_def create_document_def fresh_db_def
        del: str_ObjectId.simps)

end
